theory Spec2Isabelle
  imports
    Main
    "HOL-Library.Sublist"
    "HOL-Library.AList"
    "HOL-Library.Char_ord"
    "HOL-Library.List_Lexorder"
begin

section \<open>JavaScript values and built-ins used by the store table\<close>

text \<open>
  The sources are \<^verbatim>\<open>service-worker.js\<close> and two versions of the \<^verbatim>\<open>StoreTable\<close>
  component: one with favorites (lines 26-294) and an earlier one without (lines 295-511).

  Conventions of the embedding.
  \<^item> A JavaScript string is a \<^typ>\<open>string\<close>; a character stands for the code unit of the
    same number, so the model covers strings over U+0000..U+00FF.
  \<^item> A JavaScript number that the component computes is an integer or NaN:
    \<^typ>\<open>int option\<close>, with \<^term>\<open>None\<close> for NaN.
  \<^item> \<^verbatim>\<open>undefined\<close> where a string is expected is \<^term>\<open>None :: string option\<close>.
  \<^item> A thrown exception is the left summand of \<open>error + 'a\<close>.
\<close>

datatype error = TypeError

type_synonym number = "int option"

text \<open>\<^verbatim>\<open>String.prototype.substring(indexStart, indexEnd)\<close>: both indices are clamped to
  the length and swapped when out of order.\<close>

definition substring :: "string \<Rightarrow> nat \<Rightarrow> nat \<Rightarrow> string" where
  "substring s indexStart indexEnd =
     (let finalStart = min indexStart (length s);
          finalEnd = min indexEnd (length s);
          lo = min finalStart finalEnd;
          hi = max finalStart finalEnd
      in take (hi - lo) (drop lo s))"

text \<open>\<^verbatim>\<open>parseInt(string, 10)\<close>: leading white space is skipped, one sign is read, then
  the longest run of decimal digits; NaN when that run is empty. White space is TAB, LF,
  VT, FF, CR, SP and NBSP (the white space and line terminator code units below U+0100).\<close>

definition isWhiteSpace :: "char \<Rightarrow> bool" where
  "isWhiteSpace c = (of_char c \<in> {9, 10, 11, 12, 13, 32, 160 :: nat})"

definition isDigit :: "char \<Rightarrow> bool" where
  "isDigit c = (48 \<le> (of_char c :: nat) \<and> (of_char c :: nat) \<le> 57)"

definition digitValue :: "char \<Rightarrow> int" where
  "digitValue c = int (of_char c) - 48"

definition parseInt :: "string \<Rightarrow> number" where
  "parseInt inputString =
     (let S = dropWhile isWhiteSpace inputString;
          sign = (if S \<noteq> [] \<and> hd S = CHR ''-'' then - 1 else 1 :: int);
          S' = (if S \<noteq> [] \<and> (hd S = CHR ''+'' \<or> hd S = CHR ''-'') then tl S else S);
          Z = takeWhile isDigit S'
      in if Z = [] then None
         else Some (sign * foldl (\<lambda>n c. 10 * n + digitValue c) 0 Z))"

text \<open>A \<^verbatim>\<open>Date\<close> is its time value: milliseconds since the epoch in UTC, or NaN for
  an invalid date. The local time zone is the environment's
  \<^verbatim>\<open>LocalTZA(t, isUTC)\<close> of ECMAScript: the zone's offset in milliseconds at the UTC time
  value \<open>t\<close> (\<open>isUTC\<close> true), or at the local time value \<open>t\<close> (\<open>isUTC\<close> false; a local
  time that a transition skips or repeats is read with the offset before the
  transition). \<^verbatim>\<open>LocalTime\<close> and \<^verbatim>\<open>UTC\<close> convert with it.\<close>

type_synonym Date = number

type_synonym zone = "int \<Rightarrow> bool \<Rightarrow> int"

definition msPerMinute :: int where "msPerMinute = 60000"
definition msPerHour :: int where "msPerHour = 3600000"
definition msPerDay :: int where "msPerDay = 86400000"

definition LocalTime :: "zone \<Rightarrow> int \<Rightarrow> int" where
  "LocalTime tza t = t + tza t True"

definition UTC :: "zone \<Rightarrow> int \<Rightarrow> int" where
  "UTC tza t = t - tza t False"

definition MakeTime :: "int \<Rightarrow> int \<Rightarrow> int" where
  "MakeTime hour minute = hour * msPerHour + minute * msPerMinute"

definition MakeDate :: "int \<Rightarrow> int \<Rightarrow> int" where
  "MakeDate day time = day * msPerDay + time"

text \<open>\<^verbatim>\<open>new Date(y, m, d, hours, minutes)\<close>, with \<open>day\<close> for \<^verbatim>\<open>MakeDay(y, m, d)\<close>: the
  arguments are local time, so the time value is \<^verbatim>\<open>UTC(MakeDate(day, MakeTime(hours,
  minutes, 0, 0)))\<close>. Hour and minute arguments outside 0..23 and 0..59 carry over into
  the neighbouring hours and days. The range check of \<^verbatim>\<open>TimeClip\<close> is left out:
  two-character fields cannot reach it.\<close>

definition new_Date :: "zone \<Rightarrow> int \<Rightarrow> number \<Rightarrow> number \<Rightarrow> Date" where
  "new_Date tza day hours minutes =
     (case hours of None \<Rightarrow> None
      | Some h \<Rightarrow> (case minutes of None \<Rightarrow> None
                   | Some m \<Rightarrow> Some (UTC tza (MakeDate day (MakeTime h m)))))"

text \<open>The day, hour and minute of a time value (ECMAScript's \<^verbatim>\<open>Day\<close>,
  \<^verbatim>\<open>HourFromTime\<close>, \<^verbatim>\<open>MinFromTime\<close>); \<^verbatim>\<open>getDate\<close>, \<^verbatim>\<open>getHours\<close> and
  \<^verbatim>\<open>getMinutes\<close> read them from \<^verbatim>\<open>LocalTime\<close> of the date's time value.\<close>

definition Day :: "int \<Rightarrow> int" where
  "Day t = t div msPerDay"

definition HourFromTime :: "int \<Rightarrow> int" where
  "HourFromTime t = (t div msPerHour) mod 24"

definition MinFromTime :: "int \<Rightarrow> int" where
  "MinFromTime t = (t div msPerMinute) mod 60"

text \<open>Relational operators on dates compare the time values as numbers; a comparison
  with NaN is false. \<^verbatim>\<open>a.getTime() - b.getTime()\<close> is NaN when either is.\<close>

definition js_ge :: "number \<Rightarrow> number \<Rightarrow> bool" where
  "js_ge a b = (case a of None \<Rightarrow> False
                | Some x \<Rightarrow> (case b of None \<Rightarrow> False | Some y \<Rightarrow> y \<le> x))"

definition js_le :: "number \<Rightarrow> number \<Rightarrow> bool" where
  "js_le a b = (case a of None \<Rightarrow> False
                | Some x \<Rightarrow> (case b of None \<Rightarrow> False | Some y \<Rightarrow> x \<le> y))"

definition js_lt :: "number \<Rightarrow> number \<Rightarrow> bool" where
  "js_lt a b = (case a of None \<Rightarrow> False
                | Some x \<Rightarrow> (case b of None \<Rightarrow> False | Some y \<Rightarrow> x < y))"

definition js_minus :: "number \<Rightarrow> number \<Rightarrow> number" where
  "js_minus a b = (case a of None \<Rightarrow> None
                   | Some x \<Rightarrow> (case b of None \<Rightarrow> None | Some y \<Rightarrow> Some (x - y)))"

section \<open>The clock\<close>

text \<open>What the component reads from its environment at one moment: the day number of
  the local date (\<^verbatim>\<open>MakeDay\<close> of \<^verbatim>\<open>now.getFullYear()\<close>, \<^verbatim>\<open>now.getMonth()\<close>,
  \<^verbatim>\<open>now.getDate()\<close>), the hour and minute of the local time, and the local time zone.\<close>

record clock =
  localDay :: int
  hour :: nat
  minute :: nat
  LocalTZA :: zone

text \<open>Two zones for the examples: one with a fixed offset, and one that moves from five
  to four hours behind UTC at 07:00 UTC of day 19792 (2024-03-10, as US Eastern time
  does), so that the local times from 02:00 to 03:00 of that date are skipped.\<close>

definition fixed_zone :: "int \<Rightarrow> zone" where
  "fixed_zone offset t isUTC = offset"

definition spring_forward_zone :: zone where
  "spring_forward_zone t isUTC =
     (if isUTC
      then (if t < 19792 * 86400000 + 7 * 3600000 then - 5 * 3600000 else - 4 * 3600000)
      else (if t < 19792 * 86400000 + 3 * 3600000 then - 5 * 3600000 else - 4 * 3600000))"

definition digitChar :: "nat \<Rightarrow> char" where
  "digitChar n = char_of (48 + n mod 10)"

definition pad2 :: "nat \<Rightarrow> string" where
  "pad2 n = [digitChar (n div 10), digitChar n]"

text \<open>\<^verbatim>\<open>dayjs().format("HHmm")\<close> and \<^verbatim>\<open>dayjs().format("dddd")\<close>; day 0 (1970-01-01) was a
  Thursday.\<close>

definition getCurrentTime :: "clock \<Rightarrow> string" where
  "getCurrentTime clk = pad2 (hour clk) @ pad2 (minute clk)"

definition weekdays :: "string list" where
  "weekdays = [''Sunday'', ''Monday'', ''Tuesday'', ''Wednesday'', ''Thursday'',
               ''Friday'', ''Saturday'']"

definition getCurrentDay :: "clock \<Rightarrow> string" where
  "getCurrentDay clk = weekdays ! nat ((localDay clk + 4) mod 7)"

section \<open>parseTimeToJSDate\<close>

text \<open>Lines 95-106 and 364-375. \<^verbatim>\<open>time.substring\<close> on \<^verbatim>\<open>undefined\<close> throws a
  TypeError.\<close>

definition parseTimeToJSDate :: "clock \<Rightarrow> string option \<Rightarrow> error + Date" where
  "parseTimeToJSDate clk time =
     (case time of
        None \<Rightarrow> Inl TypeError
      | Some t \<Rightarrow>
          (let hours = parseInt (substring t 0 2);
               minutes = parseInt (substring t 2 4);
               now = localDay clk
           in Inr (new_Date (LocalTZA clk) now hours minutes)))"

text \<open>What claim C3 speaks of: a 4-digit HHMM time string, and the integer values of its
  first two and last two characters.\<close>

definition hh :: "string \<Rightarrow> int" where
  "hh t = 10 * digitValue (t ! 0) + digitValue (t ! 1)"

definition mm :: "string \<Rightarrow> int" where
  "mm t = 10 * digitValue (t ! 2) + digitValue (t ! 3)"

definition valid_HHMM :: "string \<Rightarrow> bool" where
  "valid_HHMM t = (length t = 4 \<and> list_all isDigit t \<and> hh t < 24 \<and> mm t < 60)"

section \<open>String search\<close>

text \<open>\<^verbatim>\<open>String.prototype.toLowerCase\<close> on U+0000..U+00FF: the letters A-Z and
  U+00C0..U+00DE but the multiplication sign U+00D7 move up by 32.\<close>

definition toLowerChar :: "char \<Rightarrow> char" where
  "toLowerChar c =
     (let n = (of_char c :: nat)
      in if (65 \<le> n \<and> n \<le> 90) \<or> (192 \<le> n \<and> n \<le> 222 \<and> n \<noteq> 215)
         then char_of (n + 32) else c)"

definition toLowerCase :: "string \<Rightarrow> string" where
  "toLowerCase s = map toLowerChar s"

text \<open>\<^verbatim>\<open>String.prototype.includes(searchString)\<close>: the search string occurs at some
  position of the string.\<close>

fun String_includes :: "string \<Rightarrow> string \<Rightarrow> bool" where
  "String_includes [] searchString = (searchString = [])"
| "String_includes (c # cs) searchString =
     (prefix searchString (c # cs) \<or> String_includes cs searchString)"

section \<open>Stores, rows and the component's state\<close>

text \<open>\<^verbatim>\<open>type Store = { name: string; hours: Record<string, { open: string; close: string }> }\<close>.
  The fixture \<^verbatim>\<open>bloomfield.stores\<close> is not part of the sources, so \<open>storeData\<close> is a
  parameter throughout. An object with string keys is an association list in property
  order, read with \<^const>\<open>map_of\<close>; a missing property reads as \<^term>\<open>None\<close>
  (\<^verbatim>\<open>undefined\<close>). Properties inherited from \<^verbatim>\<open>Object.prototype\<close> are outside the
  model: no key is taken to be one of their names.\<close>

record hours_entry =
  "open" :: string
  close :: string

record store =
  name :: string
  hours :: "(string \<times> hours_entry) list"

text \<open>A row of the table: \<^verbatim>\<open>{ ...store, favorite: ... }\<close>.\<close>

record row = store +
  favorite :: bool

text \<open>The \<^verbatim>\<open>useState\<close> cells of the component with favorites (lines 108-116); the
  sorting state belongs to the table library and is left out.\<close>

record state =
  search :: string
  dayFilter :: string
  openFilter :: string
  onlyFavs :: string
  favorites :: "(string \<times> bool) list"

text \<open>Truthiness of \<^verbatim>\<open>favorites[k]\<close>, a boolean or \<^verbatim>\<open>undefined\<close>.\<close>

definition truthy :: "bool option \<Rightarrow> bool" where
  "truthy v = (v = Some True)"

section \<open>filteredData\<close>

text \<open>\<^verbatim>\<open>Array.prototype.filter\<close> with a callback that may throw: the first exception
  ends the whole call.\<close>

fun Array_filter :: "('a \<Rightarrow> error + bool) \<Rightarrow> 'a list \<Rightarrow> error + 'a list" where
  "Array_filter callback [] = Inr []"
| "Array_filter callback (x # xs) =
     (case callback x of
        Inl e \<Rightarrow> Inl e
      | Inr keep \<Rightarrow>
          (case Array_filter callback xs of
             Inl e \<Rightarrow> Inl e
           | Inr kept \<Rightarrow> Inr (if keep then x # kept else kept)))"

text \<open>The block under \<^verbatim>\<open>if (openFilter === "Open Now")\<close>, lines 124-132 and 387-394,
  the same text in both versions. It yields whether the callback goes on
  (\<^term>\<open>True\<close>) or returns false here. \<^verbatim>\<open>store.hours[today] || {}\<close> is the entry or the
  empty object, whose \<^verbatim>\<open>open\<close> and \<^verbatim>\<open>close\<close> are \<^verbatim>\<open>undefined\<close>.\<close>

definition openNow :: "clock \<Rightarrow> string \<Rightarrow> 'a store_scheme \<Rightarrow> error + bool" where
  "openNow clk dayFilter' s =
     (let today = (if dayFilter' = ''Current Day'' then getCurrentDay clk else dayFilter');
          now = getCurrentTime clk;
          entry = map_of (hours s) today
      in case parseTimeToJSDate clk (map_option open entry) of
           Inl e \<Rightarrow> Inl e
         | Inr parsedOpen \<Rightarrow>
             (case parseTimeToJSDate clk (map_option close entry) of
                Inl e \<Rightarrow> Inl e
              | Inr parsedClose \<Rightarrow>
                  (case parseTimeToJSDate clk (Some now) of
                     Inl e \<Rightarrow> Inl e
                   | Inr parsedNow \<Rightarrow>
                       Inr (js_ge parsedNow parsedOpen \<and> js_le parsedNow parsedClose))))"

text \<open>The filter callback of the version with favorites, lines 119-135.\<close>

definition filter_callback :: "clock \<Rightarrow> state \<Rightarrow> store \<Rightarrow> error + bool" where
  "filter_callback clk st s =
     (if onlyFavs st = ''Favorites'' \<and> \<not> truthy (map_of (favorites st) (name s))
      then Inr False
      else if search st \<noteq> []
              \<and> \<not> String_includes (toLowerCase (name s)) (toLowerCase (search st))
      then Inr False
      else if openFilter st = ''Open Now''
      then (case openNow clk (dayFilter st) s of
              Inl e \<Rightarrow> Inl e
            | Inr inWindow \<Rightarrow> if \<not> inWindow then Inr False else Inr True)
      else Inr True)"

text \<open>The map callback, lines 136-141.\<close>

definition decorate :: "(string \<times> bool) list \<Rightarrow> store \<Rightarrow> row" where
  "decorate favs s =
     \<lparr>name = name s, hours = hours s, favorite = truthy (map_of favs (name s))\<rparr>"

definition filteredData :: "clock \<Rightarrow> state \<Rightarrow> store list \<Rightarrow> error + row list" where
  "filteredData clk st storeData =
     (case Array_filter (filter_callback clk st) storeData of
        Inl e \<Rightarrow> Inl e
      | Inr kept \<Rightarrow> Inr (map (decorate (favorites st)) kept))"

text \<open>The version without favorites, lines 382-398: its state is the three strings.\<close>

definition filter_callback_nofav ::
  "clock \<Rightarrow> string \<Rightarrow> string \<Rightarrow> string \<Rightarrow> store \<Rightarrow> error + bool" where
  "filter_callback_nofav clk search' dayFilter' openFilter' s =
     (if search' \<noteq> [] \<and> \<not> String_includes (toLowerCase (name s)) (toLowerCase search')
      then Inr False
      else if openFilter' = ''Open Now''
      then (case openNow clk dayFilter' s of
              Inl e \<Rightarrow> Inl e
            | Inr inWindow \<Rightarrow> if \<not> inWindow then Inr False else Inr True)
      else Inr True)"

definition filteredData_nofav ::
  "clock \<Rightarrow> string \<Rightarrow> string \<Rightarrow> string \<Rightarrow> store list \<Rightarrow> error + store list" where
  "filteredData_nofav clk search' dayFilter' openFilter' storeData =
     Array_filter (filter_callback_nofav clk search' dayFilter' openFilter') storeData"

text \<open>The three predicates that claim C2 names, each a function of the store and the
  filter state alone. The open-now predicate is \<^const>\<open>openNow\<close> when the open filter is
  active; it passes when that block neither throws nor returns false.\<close>

definition passes_favorites :: "state \<Rightarrow> store \<Rightarrow> bool" where
  "passes_favorites st s =
     (if onlyFavs st = ''Favorites'' then truthy (map_of (favorites st) (name s)) else True)"

definition passes_search :: "string \<Rightarrow> store \<Rightarrow> bool" where
  "passes_search search' s =
     (if search' \<noteq> [] then String_includes (toLowerCase (name s)) (toLowerCase search')
      else True)"

definition passes_openNow :: "clock \<Rightarrow> string \<Rightarrow> string \<Rightarrow> store \<Rightarrow> bool" where
  "passes_openNow clk dayFilter' openFilter' s =
     (if openFilter' = ''Open Now'' then openNow clk dayFilter' s = Inr True else True)"

section \<open>The Hours column's sortingFn\<close>

text \<open>Lines 161-170 and 410-419, the same text in both versions. \<open>dayFilter'\<close> is the
  variable \<^verbatim>\<open>dayFilter\<close> that the closure reads.\<close>

definition closingOf :: "clock \<Rightarrow> string \<Rightarrow> 'a store_scheme \<Rightarrow> error + Date" where
  "closingOf clk dayFilter' original =
     (let today = (if dayFilter' = ''Current Day'' then getCurrentDay clk else dayFilter');
          entry = map_of (hours original) today
      in parseTimeToJSDate clk (map_option close entry))"

definition sortingFn ::
  "clock \<Rightarrow> string \<Rightarrow> 'a store_scheme \<Rightarrow> 'a store_scheme \<Rightarrow> error + number" where
  "sortingFn clk dayFilter' a b =
     (case closingOf clk dayFilter' a of
        Inl e \<Rightarrow> Inl e
      | Inr aClosing \<Rightarrow>
          (case closingOf clk dayFilter' b of
             Inl e \<Rightarrow> Inl e
           | Inr bClosing \<Rightarrow> Inr (js_minus aClosing bClosing)))"

section \<open>Browser storage\<close>

text \<open>\<^verbatim>\<open>localStorage\<close> maps keys to texts. The only texts the component stores or
  expects are JSON texts of a flat object of booleans, so a stored text is given by the
  object it encodes; \<^verbatim>\<open>JSON.stringify\<close> and \<^verbatim>\<open>JSON.parse\<close> are the built-ins between
  the two, taken to be inverse on such objects.\<close>

datatype json_text = JSON_text "(string \<times> bool) list"

definition JSON_stringify :: "(string \<times> bool) list \<Rightarrow> json_text" where
  "JSON_stringify obj = JSON_text obj"

fun JSON_parse :: "json_text \<Rightarrow> (string \<times> bool) list" where
  "JSON_parse (JSON_text obj) = obj"

type_synonym storage = "string \<Rightarrow> json_text option"

definition getItem :: "storage \<Rightarrow> string \<Rightarrow> json_text option" where
  "getItem ls key = ls key"

definition setItem :: "storage \<Rightarrow> string \<Rightarrow> json_text \<Rightarrow> storage" where
  "setItem ls key v = ls(key \<mapsto> v)"

section \<open>The component over time\<close>

text \<open>Everything that outlives one render of the component with favorites: the module
  constant \<^verbatim>\<open>storeData\<close>, the browser's storage, the state cells, and the cache of
  \<^verbatim>\<open>useMemo(() => [columns], [favorites])\<close> (lines 144-173). The column closures read
  \<^verbatim>\<open>dayFilter\<close> of the render that built them, so the cache is that value together with
  the dependency it was built for; it is empty before the first render.\<close>

record world =
  storeData :: "store list"
  localStorage :: storage
  cells :: state
  columns_memo :: "((string \<times> bool) list \<times> string) option"

text \<open>The initial state cells, lines 108-116:
  \<^verbatim>\<open>JSON.parse(localStorage.getItem("favorites") ?? "{}")\<close>.\<close>

definition initial_state :: "storage \<Rightarrow> state" where
  "initial_state ls =
     \<lparr>search = [], dayFilter = ''Current Day'', openFilter = ''All'', onlyFavs = ''All'',
      favorites = JSON_parse (case getItem ls ''favorites'' of
                                None \<Rightarrow> JSON_stringify []
                              | Some text \<Rightarrow> text)\<rparr>"

text \<open>\<^verbatim>\<open>useMemo\<close> for the columns in one render: the factory runs on the first render and
  whenever \<^verbatim>\<open>favorites\<close> is not the object of the previous render. Every
  \<^verbatim>\<open>setFavorites\<close> of the component passes a fresh object whose entry for the clicked
  store differs from the old one, so between two renders the object is the same exactly
  when the association list is.\<close>

definition useMemo_columns :: "world \<Rightarrow> world" where
  "useMemo_columns w =
     (case columns_memo w of
        None \<Rightarrow> w\<lparr>columns_memo := Some (favorites (cells w), dayFilter (cells w))\<rparr>
      | Some (deps, captured) \<Rightarrow>
          if deps = favorites (cells w) then w
          else w\<lparr>columns_memo := Some (favorites (cells w), dayFilter (cells w))\<rparr>)"

definition mount :: "store list \<Rightarrow> storage \<Rightarrow> world" where
  "mount stores ls =
     useMemo_columns
       \<lparr>storeData = stores, localStorage = ls, cells = initial_state ls, columns_memo = None\<rparr>"

text \<open>The user's actions: the three inputs and the favorites select (lines 190-221), and
  a click on a table cell (lines 262-275) with the cell's column id and its row's store
  name.\<close>

datatype event =
    setSearch string
  | setDayFilter string
  | setOpenFilter string
  | setOnlyFavs string
  | onClick string string

text \<open>The handlers. \<^verbatim>\<open>{ ...favorites, [storeName]: !isFavorite }\<close> keeps the position of
  an existing key and appends a new one, which is \<^const>\<open>AList.update\<close>.\<close>

fun dispatch :: "event \<Rightarrow> world \<Rightarrow> world" where
  "dispatch (setSearch v) w = w\<lparr>cells := (cells w)\<lparr>search := v\<rparr>\<rparr>"
| "dispatch (setDayFilter v) w = w\<lparr>cells := (cells w)\<lparr>dayFilter := v\<rparr>\<rparr>"
| "dispatch (setOpenFilter v) w = w\<lparr>cells := (cells w)\<lparr>openFilter := v\<rparr>\<rparr>"
| "dispatch (setOnlyFavs v) w = w\<lparr>cells := (cells w)\<lparr>onlyFavs := v\<rparr>\<rparr>"
| "dispatch (onClick column_id storeName) w =
     (if column_id \<noteq> ''favorites'' then w
      else
        (let isFavorite = map_of (favorites (cells w)) storeName;
             updatedFavorites = AList.update storeName (\<not> truthy isFavorite) (favorites (cells w))
         in w\<lparr>localStorage := setItem (localStorage w) ''favorites'' (JSON_stringify updatedFavorites),
              cells := (cells w)\<lparr>favorites := updatedFavorites\<rparr>\<rparr>))"

text \<open>An action followed by the render it causes, and a sequence of them.\<close>

definition step :: "world \<Rightarrow> event \<Rightarrow> world" where
  "step w e = useMemo_columns (dispatch e w)"

definition run :: "world \<Rightarrow> event list \<Rightarrow> world" where
  "run w es = foldl step w es"

text \<open>The favorites cell is what the storage key holds (the empty object when the key
  is absent): an invariant of every handler and of rendering.\<close>

definition in_sync :: "world \<Rightarrow> bool" where
  "in_sync w =
     (favorites (cells w)
      = (case getItem (localStorage w) ''favorites'' of None \<Rightarrow> [] | Some t \<Rightarrow> JSON_parse t))"

text \<open>One recomputation of the filtered list (the body of the \<^verbatim>\<open>useMemo\<close> at lines
  117-142) as a state transformer: the list it returns, and the world it leaves.\<close>

definition recompute :: "clock \<Rightarrow> world \<Rightarrow> (error + row list) \<times> world" where
  "recompute clk w = (filteredData clk (cells w) (storeData w), w)"

text \<open>The comparator the table receives in each version: with favorites it is the
  closure in the cache (a world that has not rendered yet has no table; there the
  factory's own result stands in); without, the columns are built anew in every render,
  from that render's \<^verbatim>\<open>dayFilter\<close>.\<close>

definition columns_sortingFn :: "clock \<Rightarrow> world \<Rightarrow> row \<Rightarrow> row \<Rightarrow> error + number" where
  "columns_sortingFn clk w a b =
     (case columns_memo w of
        None \<Rightarrow> sortingFn clk (dayFilter (cells w)) a b
      | Some (deps, captured) \<Rightarrow> sortingFn clk captured a b)"

definition columns_sortingFn_nofav ::
  "clock \<Rightarrow> string \<Rightarrow> store \<Rightarrow> store \<Rightarrow> error + number" where
  "columns_sortingFn_nofav clk dayFilter' a b = sortingFn clk dayFilter' a b"

section \<open>The service worker's fetch handler\<close>

text \<open>Lines 19-25. \<^verbatim>\<open>caches.match(request)\<close> resolves to the cached response or to
  \<^verbatim>\<open>undefined\<close>; \<^verbatim>\<open>fetch(request)\<close> settles with the network's response or an error.
  The handler's promise settles as the one it returns.\<close>

definition fetch_listener ::
  "('req \<Rightarrow> 'resp option) \<Rightarrow> ('req \<Rightarrow> 'err + 'resp) \<Rightarrow> 'req \<Rightarrow> 'err + 'resp" where
  "fetch_listener caches_match fetch request =
     (case caches_match request of
        Some response \<Rightarrow> Inr response
      | None \<Rightarrow> fetch request)"

section \<open>Facts about the built-ins\<close>

lemma isDigit_plain:
  "isDigit c \<Longrightarrow> \<not> isWhiteSpace c \<and> c \<noteq> CHR ''-'' \<and> c \<noteq> CHR ''+''"
  by (auto simp: isDigit_def isWhiteSpace_def)

lemma parseInt_two_digits:
  "isDigit a \<Longrightarrow> isDigit b \<Longrightarrow> parseInt [a, b] = Some (10 * digitValue a + digitValue b)"
  using isDigit_plain [of a] by (simp add: parseInt_def Let_def)

lemma length_four: "length t = 4 \<Longrightarrow> \<exists>a b c d. t = [a, b, c, d]"
  by (cases t; simp; rename_tac x xs; case_tac xs; simp; rename_tac y ys; case_tac ys; simp;
      rename_tac z zs; case_tac zs; simp)

lemma digit_order: "(a < b) = (digitValue a < digitValue b)"
  by (simp add: less_char_def digitValue_def)

lemma digit_eq: "(a = b) = (digitValue a = digitValue b)"
  by (auto simp: digitValue_def)

lemma digit_range: "isDigit a \<Longrightarrow> 0 \<le> digitValue a \<and> digitValue a \<le> 9"
  by (auto simp: isDigit_def digitValue_def)

lemma two_digit_less:
  fixes a b a' b' :: int
  assumes "0 \<le> b" "b \<le> 9" "0 \<le> b'" "b' \<le> 9"
  shows "(10 * a + b < 10 * a' + b') = (a < a' \<or> a = a' \<and> b < b')"
  using assms by auto

lemma two_digit_eq:
  fixes a b a' b' :: int
  assumes "0 \<le> b" "b \<le> 9" "0 \<le> b'" "b' \<le> 9"
  shows "(10 * a + b = 10 * a' + b') = (a = a' \<and> b = b')"
  using two_digit_less [OF assms, of a a'] two_digit_less [OF assms(3,4,1,2), of a' a]
  by (cases "a = a'") auto

lemma hm_less:
  fixes h m h' m' :: int
  assumes "0 \<le> m" "m < 60" "0 \<le> m'" "m' < 60"
  shows "(60 * h + m < 60 * h' + m') = (h < h' \<or> h = h' \<and> m < m')"
  using assms by auto

lemma hm_eq:
  fixes h m h' m' :: int
  assumes "0 \<le> m" "m < 60" "0 \<le> m'" "m' < 60"
  shows "(60 * h + m = 60 * h' + m') = (h = h' \<and> m = m')"
  using hm_less [OF assms, of h h'] hm_less [OF assms(3,4,1,2), of h' h]
  by (cases "h = h'") auto

lemma ms_less:
  fixes h m h' m' D :: int
  shows "(D + h * 3600000 + m * 60000 < D + h' * 3600000 + m' * 60000)
         = (60 * h + m < 60 * h' + m')"
  by auto

lemma ms_eq:
  fixes h m h' m' D :: int
  shows "(D + h * 3600000 + m * 60000 = D + h' * 3600000 + m' * 60000)
         = (60 * h + m = 60 * h' + m')"
  by auto

lemma fields_of_time:
  fixes h m D :: int
  assumes "0 \<le> h" "h < 24" "0 \<le> m" "m < 60"
  shows "(D * 86400000 + h * 3600000 + m * 60000) div 86400000 = D"
    and "((D * 86400000 + h * 3600000 + m * 60000) div 3600000) mod 24 = h"
    and "((D * 86400000 + h * 3600000 + m * 60000) div 60000) mod 60 = m"
proof -
  have "0 \<le> h * 3600000 + m * 60000" "h * 3600000 + m * 60000 < 86400000"
    using assms by auto
  then show "(D * 86400000 + h * 3600000 + m * 60000) div 86400000 = D"
    by (simp add: add.assoc div_pos_pos_trivial)
  have "D * 86400000 + h * 3600000 + m * 60000 = (D * 24 + h) * 3600000 + m * 60000"
    by simp
  moreover have "0 \<le> m * 60000" "m * 60000 < 3600000"
    using assms by auto
  ultimately have "(D * 86400000 + h * 3600000 + m * 60000) div 3600000 = D * 24 + h"
    by (simp add: div_pos_pos_trivial)
  then show "((D * 86400000 + h * 3600000 + m * 60000) div 3600000) mod 24 = h"
    using assms by (simp add: mod_pos_pos_trivial)
  have "D * 86400000 + h * 3600000 + m * 60000 = ((D * 24 + h) * 60 + m) * 60000"
    by simp
  then have "(D * 86400000 + h * 3600000 + m * 60000) div 60000 = (D * 24 + h) * 60 + m"
    by simp
  moreover have "((D * 24 + h) * 60 + m) mod 60 = m mod 60"
    by (rule mod_mult_self3)
  moreover have "m mod 60 = m"
    using assms by (simp add: mod_pos_pos_trivial)
  ultimately show "((D * 86400000 + h * 3600000 + m * 60000) div 60000) mod 60 = m"
    by (simp only:)
qed

lemma parse_four_digits:
  assumes "isDigit a" "isDigit b" "isDigit c" "isDigit d"
  shows "parseTimeToJSDate clk (Some [a, b, c, d]) =
           Inr (Some (UTC (LocalTZA clk)
                        (localDay clk * msPerDay
                         + (10 * digitValue a + digitValue b) * msPerHour
                         + (10 * digitValue c + digitValue d) * msPerMinute)))"
  by (simp add: parseTimeToJSDate_def substring_def Let_def parseInt_two_digits assms
      new_Date_def MakeDate_def MakeTime_def add.assoc)

lemma parse_valid:
  assumes "valid_HHMM t"
  shows "parseTimeToJSDate clk (Some t) =
           Inr (Some (UTC (LocalTZA clk)
                        (localDay clk * msPerDay + hh t * msPerHour + mm t * msPerMinute)))"
proof -
  from assms have "length t = 4"
    by (simp add: valid_HHMM_def)
  then obtain a b c d where t: "t = [a, b, c, d]"
    using length_four by blast
  with assms have dig: "isDigit a" "isDigit b" "isDigit c" "isDigit d"
    by (simp_all add: valid_HHMM_def)
  show ?thesis
    unfolding t by (simp add: parse_four_digits [OF dig] hh_def mm_def)
qed

lemma lex_order:
  assumes "valid_HHMM t" "valid_HHMM u"
  shows "(t < u) = (hh t < hh u \<or> hh t = hh u \<and> mm t < mm u)"
    and "(t = u) = (hh t = hh u \<and> mm t = mm u)"
proof -
  from assms have "length t = 4" "length u = 4"
    by (simp_all add: valid_HHMM_def)
  then obtain a b c d a' b' c' d' where t: "t = [a, b, c, d]" and u: "u = [a', b', c', d']"
    using length_four by metis
  from assms have r:
    "0 \<le> digitValue a \<and> digitValue a \<le> 9" "0 \<le> digitValue b \<and> digitValue b \<le> 9"
    "0 \<le> digitValue c \<and> digitValue c \<le> 9" "0 \<le> digitValue d \<and> digitValue d \<le> 9"
    "0 \<le> digitValue a' \<and> digitValue a' \<le> 9" "0 \<le> digitValue b' \<and> digitValue b' \<le> 9"
    "0 \<le> digitValue c' \<and> digitValue c' \<le> 9" "0 \<le> digitValue d' \<and> digitValue d' \<le> 9"
    by (simp_all add: valid_HHMM_def t u digit_range)
  have H: "(hh t < hh u) = (a < a' \<or> a = a' \<and> b < b')" "(hh t = hh u) = (a = a' \<and> b = b')"
    using r by (simp_all add: hh_def t u digit_order digit_eq [of a a'] digit_eq [of b b']
        two_digit_less two_digit_eq)
  have M: "(mm t < mm u) = (c < c' \<or> c = c' \<and> d < d')" "(mm t = mm u) = (c = c' \<and> d = d')"
    using r by (simp_all add: mm_def t u digit_order digit_eq [of c c'] digit_eq [of d d']
        two_digit_less two_digit_eq)
  show "(t < u) = (hh t < hh u \<or> hh t = hh u \<and> mm t < mm u)"
    unfolding H M by (auto simp: t u)
  show "(t = u) = (hh t = hh u \<and> mm t = mm u)"
    unfolding H M by (auto simp: t u)
qed

lemma hh_mm_range:
  assumes "valid_HHMM t"
  shows "0 \<le> hh t \<and> hh t < 24 \<and> 0 \<le> mm t \<and> mm t < 60"
proof -
  from assms have "length t = 4"
    by (simp add: valid_HHMM_def)
  then obtain a b c d where t: "t = [a, b, c, d]"
    using length_four by blast
  with assms show ?thesis
    using digit_range [of a] digit_range [of b] digit_range [of c] digit_range [of d]
    by (simp add: valid_HHMM_def hh_def mm_def)
qed

lemma parse_Some: "\<exists>d. parseTimeToJSDate clk (Some t) = Inr d"
  by (simp add: parseTimeToJSDate_def Let_def)

lemma String_includes_sublist: "String_includes xs ys = sublist ys xs"
  by (induction xs) (simp_all add: sublist_Cons_right)

section \<open>The open-now window\<close>

lemma openNow_entry:
  assumes "map_of (hours s) (if d = ''Current Day'' then getCurrentDay clk else d) = Some e"
    and "parseTimeToJSDate clk (Some (open e)) = Inr po"
    and "parseTimeToJSDate clk (Some (close e)) = Inr pc"
    and "parseTimeToJSDate clk (Some (getCurrentTime clk)) = Inr pn"
  shows "openNow clk d s = Inr (js_le po pn \<and> js_le pn pc)"
proof -
  have "js_ge pn po = js_le po pn"
    by (simp add: js_ge_def js_le_def split: option.splits)
  with assms show ?thesis
    by (simp add: openNow_def Let_def)
qed

lemma openNow_missing:
  assumes "map_of (hours s) (if d = ''Current Day'' then getCurrentDay clk else d) = None"
  shows "openNow clk d s = Inl TypeError"
  using assms by (simp add: openNow_def Let_def parseTimeToJSDate_def)

lemma openNow_total_iff:
  "(\<exists>b. openNow clk d s = Inr b)
   = (map_of (hours s) (if d = ''Current Day'' then getCurrentDay clk else d) \<noteq> None)"
proof (cases "map_of (hours s) (if d = ''Current Day'' then getCurrentDay clk else d)")
  case None
  then show ?thesis
    using openNow_missing [of s d clk] by simp
next
  case (Some e)
  obtain po pc pn where "parseTimeToJSDate clk (Some (open e)) = Inr po"
    "parseTimeToJSDate clk (Some (close e)) = Inr pc"
    "parseTimeToJSDate clk (Some (getCurrentTime clk)) = Inr pn"
    using parse_Some by metis
  then show ?thesis
    using openNow_entry [OF Some] Some by simp
qed

section \<open>Facts about the filter\<close>

lemma Array_filter_Inr:
  "Array_filter p xs = Inr ys \<Longrightarrow>
     (\<forall>x \<in> set xs. \<exists>b. p x = Inr b) \<and> ys = filter (\<lambda>x. p x = Inr True) xs"
proof (induction xs arbitrary: ys)
  case Nil
  then show ?case by simp
next
  case (Cons x xs)
  from Cons.prems obtain b kept where b: "p x = Inr b"
    and kept: "Array_filter p xs = Inr kept" and ys: "ys = (if b then x # kept else kept)"
    by (auto split: sum.splits)
  from Cons.IH [OF kept] b ys show ?case
    by auto
qed

lemma Array_filter_total:
  "(\<forall>x \<in> set xs. \<exists>b. p x = Inr b) \<Longrightarrow>
     Array_filter p xs = Inr (filter (\<lambda>x. p x = Inr True) xs)"
  by (induction xs) auto

lemma Array_filter_Inl:
  "Array_filter p xs = Inl e \<Longrightarrow> \<exists>x \<in> set xs. p x = Inl e"
proof (induction xs)
  case Nil
  then show ?case by simp
next
  case (Cons x xs)
  then show ?case
    by (cases "p x"; cases "Array_filter p xs") auto
qed

lemma Array_filter_raises:
  "x \<in> set xs \<Longrightarrow> p x = Inl e \<Longrightarrow> \<exists>e'. Array_filter p xs = Inl e'"
  by (induction xs) (auto split: sum.splits)

lemma filter_callback_True:
  "(filter_callback clk st s = Inr True)
   = (passes_favorites st s \<and> passes_search (search st) s
      \<and> passes_openNow clk (dayFilter st) (openFilter st) s)"
  by (cases "openNow clk (dayFilter st) s")
    (auto simp: filter_callback_def passes_favorites_def passes_search_def passes_openNow_def)

lemma filter_callback_nofav_True:
  "(filter_callback_nofav clk q d opn s = Inr True)
   = (passes_search q s \<and> passes_openNow clk d opn s)"
  by (cases "openNow clk d s")
    (auto simp: filter_callback_nofav_def passes_search_def passes_openNow_def)

lemma decorate_inject: "(decorate favs s = decorate favs s') = (s = s')"
  by (cases s; cases s') (auto simp: decorate_def)

lemma truncate_decorate: "store.truncate (decorate favs s) = s"
  by (cases s) (simp add: decorate_def store.truncate_def)

lemma truncate_decorate_map: "map store.truncate (map (decorate favs) xs) = xs"
  by (induction xs) (simp_all add: truncate_decorate)

lemma filteredData_Inr:
  assumes "filteredData clk st stores = Inr rows"
  shows "rows = map (decorate (favorites st))
                  (filter (\<lambda>s. filter_callback clk st s = Inr True) stores)"
proof -
  from assms obtain kept where k: "Array_filter (filter_callback clk st) stores = Inr kept"
    and r: "rows = map (decorate (favorites st)) kept"
    by (auto simp: filteredData_def split: sum.splits)
  from Array_filter_Inr [OF k] r show ?thesis
    by simp
qed

text \<open>When the filter returns a list, a store of the fixture is in it exactly when it
  passes the three predicates.\<close>

lemma filteredData_conjunction:
  assumes "filteredData clk st stores = Inr rows" and "s \<in> set stores"
  shows "(decorate (favorites st) s \<in> set rows)
         = (passes_favorites st s \<and> passes_search (search st) s
            \<and> passes_openNow clk (dayFilter st) (openFilter st) s)"
proof -
  have "(decorate (favorites st) s \<in> set rows) = (filter_callback clk st s = Inr True)"
    using assms(2) by (auto simp: filteredData_Inr [OF assms(1)] decorate_inject)
  then show ?thesis
    by (simp only: filter_callback_True)
qed

lemma filteredData_total:
  assumes "openFilter st = ''Open Now'' \<Longrightarrow>
           \<forall>s \<in> set stores. map_of (hours s)
             (if dayFilter st = ''Current Day'' then getCurrentDay clk else dayFilter st) \<noteq> None"
  shows "\<exists>rows. filteredData clk st stores = Inr rows"
proof -
  have "\<forall>s \<in> set stores. \<exists>b. filter_callback clk st s = Inr b"
  proof
    fix s assume s: "s \<in> set stores"
    show "\<exists>b. filter_callback clk st s = Inr b"
    proof (cases "openFilter st = ''Open Now''")
      case True
      with assms s obtain b where "openNow clk (dayFilter st) s = Inr b"
        using openNow_total_iff [of clk "dayFilter st" s] by blast
      then show ?thesis
        by (auto simp: filter_callback_def)
    next
      case False
      then show ?thesis
        by (auto simp: filter_callback_def)
    qed
  qed
  from Array_filter_total [OF this] show ?thesis
    by (simp add: filteredData_def)
qed

lemma filter_callback_raises:
  assumes "openFilter st = ''Open Now''"
    and "map_of (hours s)
           (if dayFilter st = ''Current Day'' then getCurrentDay clk else dayFilter st) = None"
    and "passes_favorites st s" and "passes_search (search st) s"
  shows "filter_callback clk st s = Inl TypeError"
  using assms openNow_missing [of s "dayFilter st" clk]
  by (auto simp: filter_callback_def passes_favorites_def passes_search_def split: if_splits)

lemma filteredData_raises:
  assumes "s \<in> set stores" and "openFilter st = ''Open Now''"
    and "map_of (hours s)
           (if dayFilter st = ''Current Day'' then getCurrentDay clk else dayFilter st) = None"
    and "passes_favorites st s" and "passes_search (search st) s"
  shows "filteredData clk st stores = Inl TypeError"
proof -
  have "filter_callback clk st s = Inl TypeError"
    by (rule filter_callback_raises [OF assms(2-5)])
  with assms(1) Array_filter_raises [of s stores "filter_callback clk st" TypeError] obtain e'
    where "Array_filter (filter_callback clk st) stores = Inl e'"
    by blast
  then show ?thesis
    by (cases e') (simp add: filteredData_def)
qed

section \<open>Facts about the component over time\<close>

lemma useMemo_columns_frame:
  "cells (useMemo_columns w) = cells w"
  "localStorage (useMemo_columns w) = localStorage w"
  "storeData (useMemo_columns w) = storeData w"
  by (auto simp: useMemo_columns_def split: option.splits)

lemma dispatch_other_keys:
  "k \<noteq> ''favorites'' \<Longrightarrow> getItem (localStorage (dispatch e w)) k = getItem (localStorage w) k"
  by (cases e) (simp_all add: getItem_def setItem_def Let_def)

lemma step_other_keys:
  "k \<noteq> ''favorites'' \<Longrightarrow> getItem (localStorage (step w e)) k = getItem (localStorage w) k"
  by (simp add: step_def useMemo_columns_frame dispatch_other_keys)

lemma run_other_keys:
  "k \<noteq> ''favorites'' \<Longrightarrow> getItem (localStorage (run w es)) k = getItem (localStorage w) k"
  unfolding run_def by (induction es arbitrary: w) (simp_all add: step_other_keys)

lemma mount_in_sync: "in_sync (mount stores ls)"
  by (simp add: in_sync_def mount_def useMemo_columns_frame initial_state_def
      JSON_stringify_def split: option.splits)

lemma step_in_sync: "in_sync w \<Longrightarrow> in_sync (step w e)"
  by (cases e)
    (simp_all add: in_sync_def step_def useMemo_columns_frame getItem_def setItem_def
      JSON_stringify_def Let_def)

lemma run_in_sync: "in_sync w \<Longrightarrow> in_sync (run w es)"
  unfolding run_def by (induction es arbitrary: w) (simp_all add: step_in_sync)

lemma toggle_favorites:
  "favorites (cells (step w (onClick ''favorites'' n)))
   = AList.update n (\<not> truthy (map_of (favorites (cells w)) n)) (favorites (cells w))"
  by (simp add: step_def useMemo_columns_frame Let_def)

lemma toggle_lookup:
  "map_of (favorites (cells (step w (onClick ''favorites'' n)))) k
   = (if k = n then Some (\<not> truthy (map_of (favorites (cells w)) n))
      else map_of (favorites (cells w)) k)"
  by (simp add: toggle_favorites update_conv')

text \<open>The comparator for a fixed value of the closure's \<^verbatim>\<open>dayFilter\<close>: the difference of
  the two closing times on that day.\<close>

lemma sortingFn_entries:
  assumes "map_of (hours a) (if d = ''Current Day'' then getCurrentDay clk else d) = Some ea"
    and "map_of (hours b) (if d = ''Current Day'' then getCurrentDay clk else d) = Some eb"
    and "parseTimeToJSDate clk (Some (close ea)) = Inr aClosing"
    and "parseTimeToJSDate clk (Some (close eb)) = Inr bClosing"
  shows "sortingFn clk d a b = Inr (js_minus aClosing bClosing)"
  using assms by (simp add: sortingFn_def closingOf_def Let_def)

lemma setDayFilter_keeps_columns:
  assumes "columns_memo w = Some (favorites (cells w), captured)"
  shows "columns_memo (step w (setDayFilter d)) = Some (favorites (cells w), captured)"
  using assms by (simp add: step_def useMemo_columns_def)

lemma js_minus_sign:
  "js_lt x y \<Longrightarrow> \<exists>n. js_minus x y = Some n \<and> n < 0"
  "x = Some u \<Longrightarrow> y = Some u \<Longrightarrow> js_minus x y = Some 0"
  "js_lt y x \<Longrightarrow> \<exists>n. js_minus x y = Some n \<and> 0 < n"
  by (auto simp: js_lt_def js_minus_def split: option.splits)

section \<open>The claims of the specification\<close>

text \<open>
  C1, as the code has it. Under the "Open Now" filter, a store with an hours entry for
  the selected day passes exactly when the current time lies in the closed interval
  from open to close: parsed open <= parsed now and parsed now <= parsed close, in both
  versions of the filter. (The comparisons are JavaScript's: false when a parse is
  invalid.)
\<close>

theorem open_now_closed_interval:
  assumes "map_of (hours s) (if d = ''Current Day'' then getCurrentDay clk else d) = Some e"
  shows "\<exists>po pc pn.
           parseTimeToJSDate clk (Some (open e)) = Inr po
         \<and> parseTimeToJSDate clk (Some (close e)) = Inr pc
         \<and> parseTimeToJSDate clk (Some (getCurrentTime clk)) = Inr pn
         \<and> openNow clk d s = Inr (js_le po pn \<and> js_le pn pc)
         \<and> filter_callback clk
              \<lparr>search = [], dayFilter = d, openFilter = ''Open Now'', onlyFavs = ''All'',
               favorites = favs\<rparr> s = Inr (js_le po pn \<and> js_le pn pc)
         \<and> filter_callback_nofav clk [] d ''Open Now'' s = Inr (js_le po pn \<and> js_le pn pc)"
proof -
  obtain po where po: "parseTimeToJSDate clk (Some (open e)) = Inr po"
    using parse_Some by blast
  obtain pc where pc: "parseTimeToJSDate clk (Some (close e)) = Inr pc"
    using parse_Some by blast
  obtain pn where pn: "parseTimeToJSDate clk (Some (getCurrentTime clk)) = Inr pn"
    using parse_Some by blast
  have o: "openNow clk d s = Inr (js_le po pn \<and> js_le pn pc)"
    by (rule openNow_entry [OF assms po pc pn])
  have "filter_callback clk
              \<lparr>search = [], dayFilter = d, openFilter = ''Open Now'', onlyFavs = ''All'',
               favorites = favs\<rparr> s = Inr (js_le po pn \<and> js_le pn pc)"
    by (simp add: filter_callback_def o)
  moreover have "filter_callback_nofav clk [] d ''Open Now'' s
                 = Inr (js_le po pn \<and> js_le pn pc)"
    by (simp add: filter_callback_nofav_def o)
  ultimately show ?thesis
    using po pc pn o by blast
qed

theorem open_now_closed_interval_witness:
  "map_of (hours \<lparr>name = ''Cafe'',
                   hours = [(''Monday'', \<lparr>open = ''0900'', close = ''1700''\<rparr>)]\<rparr>)
     (if ''Monday'' = ''Current Day''
      then getCurrentDay \<lparr>localDay = 20003, hour = 17, minute = 30, LocalTZA = fixed_zone 0\<rparr> else ''Monday'')
     = Some \<lparr>open = ''0900'', close = ''1700''\<rparr>
   \<and> openNow \<lparr>localDay = 20003, hour = 17, minute = 30, LocalTZA = fixed_zone 0\<rparr> ''Monday''
       \<lparr>name = ''Cafe'', hours = [(''Monday'', \<lparr>open = ''0900'', close = ''1700''\<rparr>)]\<rparr>
     = Inr False"
proof -
  let ?clk = "\<lparr>localDay = 20003, hour = 17, minute = 30, LocalTZA = fixed_zone 0\<rparr>"
  let ?e = "\<lparr>open = ''0900'', close = ''1700''\<rparr>"
  let ?s = "\<lparr>name = ''Cafe'', hours = [(''Monday'', ?e)]\<rparr>"
  have h: "map_of (hours ?s)
             (if ''Monday'' = ''Current Day'' then getCurrentDay ?clk else ''Monday'') = Some ?e"
    by simp
  have p: "parseTimeToJSDate ?clk (Some (open ?e)) = Inr (Some 1728291600000)"
    "parseTimeToJSDate ?clk (Some (close ?e)) = Inr (Some 1728320400000)"
    "parseTimeToJSDate ?clk (Some (getCurrentTime ?clk)) = Inr (Some 1728322200000)"
    by code_simp+
  from open_now_closed_interval [OF h, of "[]"] obtain po pc pn where
    f: "parseTimeToJSDate ?clk (Some (open ?e)) = Inr po"
    "parseTimeToJSDate ?clk (Some (close ?e)) = Inr pc"
    "parseTimeToJSDate ?clk (Some (getCurrentTime ?clk)) = Inr pn"
    and r: "openNow ?clk ''Monday'' ?s = Inr (js_le po pn \<and> js_le pn pc)"
    by blast
  from f p have "po = Some 1728291600000" "pc = Some 1728320400000" "pn = Some 1728322200000"
    by (simp_all only: sum.inject)
  then have "\<not> (js_le po pn \<and> js_le pn pc)"
    by (simp add: js_le_def)
  with r have "openNow ?clk ''Monday'' ?s = Inr False"
    by (simp only:)
  with h show ?thesis
    by blast
qed

text \<open>
  C1, as stated, fails at closing time: with hours 0900-1700 and the clock at 17:00 the
  store passes the filter, although parsed now < parsed close is false.
\<close>

theorem open_now_half_open_counterexample:
  "filter_callback \<lparr>localDay = 20003, hour = 17, minute = 0, LocalTZA = fixed_zone 0\<rparr>
     \<lparr>search = [], dayFilter = ''Monday'', openFilter = ''Open Now'', onlyFavs = ''All'',
      favorites = []\<rparr>
     \<lparr>name = ''Cafe'', hours = [(''Monday'', \<lparr>open = ''0900'', close = ''1700''\<rparr>)]\<rparr>
     = Inr True
   \<and> filter_callback_nofav \<lparr>localDay = 20003, hour = 17, minute = 0, LocalTZA = fixed_zone 0\<rparr> [] ''Monday''
       ''Open Now''
       \<lparr>name = ''Cafe'', hours = [(''Monday'', \<lparr>open = ''0900'', close = ''1700''\<rparr>)]\<rparr>
     = Inr True
   \<and> parseTimeToJSDate \<lparr>localDay = 20003, hour = 17, minute = 0, LocalTZA = fixed_zone 0\<rparr>
       (Some (getCurrentTime \<lparr>localDay = 20003, hour = 17, minute = 0, LocalTZA = fixed_zone 0\<rparr>))
     = Inr (Some 1728320400000)
   \<and> parseTimeToJSDate \<lparr>localDay = 20003, hour = 17, minute = 0, LocalTZA = fixed_zone 0\<rparr> (Some ''1700'')
     = Inr (Some 1728320400000)
   \<and> \<not> js_lt (Some 1728320400000) (Some 1728320400000)"
  by code_simp

text \<open>
  C2 fails on the code. The filter callback throws for a store without an hours entry for
  the selected day (claim C9), and the exception ends the whole filter: a store that
  passes all three predicates does not appear, because no list is produced. Here it is
  Sunday 12:30 under "Open Now"; Cafe has Sunday hours 0900-1700 and passes the three
  predicates, Bank has Monday hours only, and the filter throws. Nor are the predicates
  evaluated independently: with the search string "caf" the search check rejects Bank
  before its hours are read, and the same fixture yields the list with Cafe.
\<close>

theorem passing_store_lost_when_filter_raises:
  "getCurrentDay \<lparr>localDay = 20002, hour = 12, minute = 30, LocalTZA = fixed_zone 0\<rparr> = ''Sunday''
   \<and> passes_favorites
       \<lparr>search = [], dayFilter = ''Current Day'', openFilter = ''Open Now'', onlyFavs = ''All'',
        favorites = []\<rparr>
       \<lparr>name = ''Cafe'', hours = [(''Sunday'', \<lparr>open = ''0900'', close = ''1700''\<rparr>)]\<rparr>
   \<and> passes_search []
       \<lparr>name = ''Cafe'', hours = [(''Sunday'', \<lparr>open = ''0900'', close = ''1700''\<rparr>)]\<rparr>
   \<and> passes_openNow \<lparr>localDay = 20002, hour = 12, minute = 30, LocalTZA = fixed_zone 0\<rparr>
       ''Current Day'' ''Open Now''
       \<lparr>name = ''Cafe'', hours = [(''Sunday'', \<lparr>open = ''0900'', close = ''1700''\<rparr>)]\<rparr>
   \<and> filteredData \<lparr>localDay = 20002, hour = 12, minute = 30, LocalTZA = fixed_zone 0\<rparr>
       \<lparr>search = [], dayFilter = ''Current Day'', openFilter = ''Open Now'', onlyFavs = ''All'',
        favorites = []\<rparr>
       [\<lparr>name = ''Cafe'', hours = [(''Sunday'', \<lparr>open = ''0900'', close = ''1700''\<rparr>)]\<rparr>,
        \<lparr>name = ''Bank'', hours = [(''Monday'', \<lparr>open = ''0900'', close = ''1200''\<rparr>)]\<rparr>]
     = Inl TypeError
   \<and> filteredData \<lparr>localDay = 20002, hour = 12, minute = 30, LocalTZA = fixed_zone 0\<rparr>
       \<lparr>search = ''caf'', dayFilter = ''Current Day'', openFilter = ''Open Now'',
        onlyFavs = ''All'', favorites = []\<rparr>
       [\<lparr>name = ''Cafe'', hours = [(''Sunday'', \<lparr>open = ''0900'', close = ''1700''\<rparr>)]\<rparr>,
        \<lparr>name = ''Bank'', hours = [(''Monday'', \<lparr>open = ''0900'', close = ''1200''\<rparr>)]\<rparr>]
     = Inr [\<lparr>name = ''Cafe'', hours = [(''Sunday'', \<lparr>open = ''0900'', close = ''1700''\<rparr>)],
             favorite = False\<rparr>]"
  by code_simp

text \<open>
  C3, as the code has it. On a date on which the offset of the local time zone does not
  change, for every 4-digit HHMM time string (two digits of an hour below 24, two digits
  of a minute below 60) \<^const>\<open>parseTimeToJSDate\<close> returns a valid timestamp on the
  current date whose local hour is the value of the first two characters and whose
  local minute is the value of the last two; and two such timestamps compare as the
  strings do lexicographically.
\<close>

theorem parseTimeToJSDate_HHMM:
  assumes "valid_HHMM t" and "valid_HHMM u"
    and "\<And>l. localDay clk * msPerDay \<le> l \<Longrightarrow> l < (localDay clk + 1) * msPerDay
           \<Longrightarrow> LocalTZA clk l False = offset"
    and "\<And>l. localDay clk * msPerDay \<le> l \<Longrightarrow> l < (localDay clk + 1) * msPerDay
           \<Longrightarrow> LocalTZA clk (l - offset) True = offset"
  shows "\<exists>x y. parseTimeToJSDate clk (Some t) = Inr (Some x)
           \<and> parseTimeToJSDate clk (Some u) = Inr (Some y)
           \<and> Day (LocalTime (LocalTZA clk) x) = localDay clk
           \<and> HourFromTime (LocalTime (LocalTZA clk) x) = hh t
           \<and> MinFromTime (LocalTime (LocalTZA clk) x) = mm t
           \<and> (x < y) = (t < u) \<and> (x = y) = (t = u)"
proof -
  let ?lt = "localDay clk * msPerDay + hh t * msPerHour + mm t * msPerMinute"
  let ?lu = "localDay clk * msPerDay + hh u * msPerHour + mm u * msPerMinute"
  note rt = hh_mm_range [OF assms(1)] and ru = hh_mm_range [OF assms(2)]
  have "0 \<le> hh t * 3600000 + mm t * 60000" "hh t * 3600000 + mm t * 60000 < 86400000"
    "0 \<le> hh u * 3600000 + mm u * 60000" "hh u * 3600000 + mm u * 60000 < 86400000"
    using rt ru by auto
  then have in_day: "localDay clk * msPerDay \<le> ?lt" "?lt < (localDay clk + 1) * msPerDay"
    "localDay clk * msPerDay \<le> ?lu" "?lu < (localDay clk + 1) * msPerDay"
    by (simp_all add: msPerDay_def msPerHour_def msPerMinute_def algebra_simps)
  have x: "UTC (LocalTZA clk) ?lt = ?lt - offset"
    by (simp only: UTC_def assms(3) [OF in_day(1,2)])
  have y: "UTC (LocalTZA clk) ?lu = ?lu - offset"
    by (simp only: UTC_def assms(3) [OF in_day(3,4)])
  have loc: "LocalTime (LocalTZA clk) (?lt - offset) = ?lt"
    by (simp add: LocalTime_def assms(4) [OF in_day(1,2)])
  have d: "Day ?lt = localDay clk" "HourFromTime ?lt = hh t" "MinFromTime ?lt = mm t"
    using rt fields_of_time [of "hh t" "mm t" "localDay clk"]
    by (simp_all add: Day_def HourFromTime_def MinFromTime_def msPerDay_def msPerHour_def
        msPerMinute_def)
  have "(?lt < ?lu) = (60 * hh t + mm t < 60 * hh u + mm u)"
    unfolding msPerDay_def msPerHour_def msPerMinute_def by (rule ms_less)
  also have "\<dots> = (hh t < hh u \<or> hh t = hh u \<and> mm t < mm u)"
    using rt ru by (intro hm_less) simp_all
  finally have "(?lt < ?lu) = (t < u)"
    by (simp only: lex_order [OF assms(1,2)])
  then have l: "(?lt - offset < ?lu - offset) = (t < u)"
    by simp
  have "(?lt = ?lu) = (60 * hh t + mm t = 60 * hh u + mm u)"
    unfolding msPerDay_def msPerHour_def msPerMinute_def by (rule ms_eq)
  also have "\<dots> = (hh t = hh u \<and> mm t = mm u)"
    using rt ru by (intro hm_eq) simp_all
  finally have "(?lt = ?lu) = (t = u)"
    by (simp only: lex_order [OF assms(1,2)])
  then have e: "(?lt - offset = ?lu - offset) = (t = u)"
    by simp
  have px: "parseTimeToJSDate clk (Some t) = Inr (Some (?lt - offset))"
    by (simp only: parse_valid [OF assms(1)] x)
  have py: "parseTimeToJSDate clk (Some u) = Inr (Some (?lu - offset))"
    by (simp only: parse_valid [OF assms(2)] y)
  from px py loc d l e show ?thesis
    by (intro exI conjI) (simp_all only:)
qed

theorem parseTimeToJSDate_HHMM_witness:
  "valid_HHMM ''0930'' \<and> valid_HHMM ''1700''
   \<and> (\<forall>l. LocalTZA \<lparr>localDay = 20003, hour = 12, minute = 0,
                      LocalTZA = fixed_zone (- 18000000)\<rparr> l False = - 18000000)
   \<and> (\<forall>l. LocalTZA \<lparr>localDay = 20003, hour = 12, minute = 0,
                      LocalTZA = fixed_zone (- 18000000)\<rparr> (l - (- 18000000)) True
           = - 18000000)
   \<and> (\<exists>x y. parseTimeToJSDate
               \<lparr>localDay = 20003, hour = 12, minute = 0, LocalTZA = fixed_zone (- 18000000)\<rparr>
               (Some ''0930'') = Inr (Some x)
           \<and> parseTimeToJSDate
               \<lparr>localDay = 20003, hour = 12, minute = 0, LocalTZA = fixed_zone (- 18000000)\<rparr>
               (Some ''1700'') = Inr (Some y)
           \<and> Day (LocalTime (fixed_zone (- 18000000)) x) = 20003
           \<and> HourFromTime (LocalTime (fixed_zone (- 18000000)) x) = 9
           \<and> MinFromTime (LocalTime (fixed_zone (- 18000000)) x) = 30
           \<and> x < y)"
proof -
  let ?clk = "\<lparr>localDay = 20003, hour = 12, minute = 0, LocalTZA = fixed_zone (- 18000000)\<rparr>"
  have v: "valid_HHMM ''0930''" "valid_HHMM ''1700''"
    by code_simp+
  have z1: "LocalTZA ?clk l False = - 18000000" for l
    by (simp add: fixed_zone_def)
  have z2: "LocalTZA ?clk (l - (- 18000000)) True = - 18000000" for l
    by (simp add: fixed_zone_def)
  have o: "''0930'' < ''1700''"
    by (simp add: less_char_def)
  have h: "hh ''0930'' = 9" "mm ''0930'' = 30"
    by (simp_all add: hh_def mm_def digitValue_def)
  have s: "LocalTZA ?clk = fixed_zone (- 18000000)" "localDay ?clk = 20003"
    by simp_all
  from parseTimeToJSDate_HHMM [of "''0930''" "''1700''" ?clk "- 18000000", OF v z1 z2]
  have "\<exists>x y. parseTimeToJSDate ?clk (Some ''0930'') = Inr (Some x)
           \<and> parseTimeToJSDate ?clk (Some ''1700'') = Inr (Some y)
           \<and> Day (LocalTime (fixed_zone (- 18000000)) x) = 20003
           \<and> HourFromTime (LocalTime (fixed_zone (- 18000000)) x) = 9
           \<and> MinFromTime (LocalTime (fixed_zone (- 18000000)) x) = 30
           \<and> x < y"
    unfolding s h using o by blast
  with v z1 z2 show ?thesis
    by (intro conjI allI)
qed

text \<open>
  C3, as stated, fails on a date with a zone transition. On 2024-03-10 in a zone that
  moves its clocks forward at 02:00, the valid strings 0230 and 0330 parse to the same
  timestamp, whose local hour is 3: the hour of the first is not the value of its first
  two characters, and the two timestamps are equal although the strings are not.
\<close>

theorem parseTimeToJSDate_skipped_hour_counterexample:
  "valid_HHMM ''0230'' \<and> valid_HHMM ''0330'' \<and> ''0230'' < ''0330''
   \<and> parseTimeToJSDate
       \<lparr>localDay = 19792, hour = 12, minute = 0, LocalTZA = spring_forward_zone\<rparr>
       (Some ''0230'') = Inr (Some 1710055800000)
   \<and> parseTimeToJSDate
       \<lparr>localDay = 19792, hour = 12, minute = 0, LocalTZA = spring_forward_zone\<rparr>
       (Some ''0330'') = Inr (Some 1710055800000)
   \<and> HourFromTime (LocalTime spring_forward_zone 1710055800000) = 3
   \<and> hh ''0230'' = 2"
proof -
  have "''0230'' < ''0330''"
    by (simp add: less_char_def)
  moreover have "valid_HHMM ''0230''" "valid_HHMM ''0330''"
    "parseTimeToJSDate
       \<lparr>localDay = 19792, hour = 12, minute = 0, LocalTZA = spring_forward_zone\<rparr>
       (Some ''0230'') = Inr (Some 1710055800000)"
    "parseTimeToJSDate
       \<lparr>localDay = 19792, hour = 12, minute = 0, LocalTZA = spring_forward_zone\<rparr>
       (Some ''0330'') = Inr (Some 1710055800000)"
    "HourFromTime (LocalTime spring_forward_zone 1710055800000) = 3"
    "hh ''0230'' = 2"
    by code_simp+
  ultimately show ?thesis
    by (intro conjI)
qed

text \<open>
  C4. Favorites are persisted under the single storage key "favorites": when the
  component is mounted its favorites are the parsed value of that key (the empty object
  when the key is absent); after a click on a favorites cell the value stored under the
  key, parsed, is the favorites in memory; this holds after every sequence of actions;
  and no action changes what the storage holds under any other key.
\<close>

theorem favorites_persisted:
  "favorites (cells (mount stores ls))
   = (case getItem ls ''favorites'' of None \<Rightarrow> [] | Some t \<Rightarrow> JSON_parse t)
   \<and> map_option JSON_parse (getItem (localStorage (step w (onClick ''favorites'' n))) ''favorites'')
     = Some (favorites (cells (step w (onClick ''favorites'' n))))
   \<and> in_sync (run (mount stores ls) es)
   \<and> (k \<noteq> ''favorites'' \<longrightarrow> getItem (localStorage (run w es)) k = getItem (localStorage w) k)"
proof -
  have "favorites (cells (mount stores ls))
        = (case getItem ls ''favorites'' of None \<Rightarrow> [] | Some t \<Rightarrow> JSON_parse t)"
    using mount_in_sync [of stores ls]
    by (simp add: in_sync_def mount_def useMemo_columns_frame)
  moreover have "map_option JSON_parse
           (getItem (localStorage (step w (onClick ''favorites'' n))) ''favorites'')
        = Some (favorites (cells (step w (onClick ''favorites'' n))))"
    by (simp add: step_def useMemo_columns_frame getItem_def setItem_def JSON_stringify_def
        Let_def)
  moreover have "in_sync (run (mount stores ls) es)"
    by (rule run_in_sync [OF mount_in_sync])
  ultimately show ?thesis
    using run_other_keys [of k w es] by blast
qed

theorem favorites_persisted_witness:
  "''theme'' \<noteq> ''favorites''
   \<and> favorites (cells (mount [] [''favorites'' \<mapsto> JSON_text [(''Cafe'', True)]]))
     = [(''Cafe'', True)]
   \<and> getItem (localStorage
        (run (mount [] [''theme'' \<mapsto> JSON_text []])
           [setSearch ''ca'', onClick ''favorites'' ''Cafe'', onClick ''name'' ''Cafe''])) ''theme''
     = Some (JSON_text [])
   \<and> in_sync (run (mount [] [''theme'' \<mapsto> JSON_text []])
        [setSearch ''ca'', onClick ''favorites'' ''Cafe'', onClick ''name'' ''Cafe''])"
proof -
  let ?ls = "[''theme'' \<mapsto> JSON_text []]"
  let ?ls' = "[''favorites'' \<mapsto> JSON_text [(''Cafe'', True)]]"
  let ?es = "[setSearch ''ca'', onClick ''favorites'' ''Cafe'', onClick ''name'' ''Cafe'']"
  have n: "''theme'' \<noteq> ''favorites''"
    by simp
  have g: "getItem ?ls' ''favorites'' = Some (JSON_text [(''Cafe'', True)])"
    by (simp add: getItem_def)
  have a: "favorites (cells (mount [] ?ls')) = [(''Cafe'', True)]"
    using favorites_persisted [of "[]" ?ls' "mount [] ?ls'" "''Cafe''" "[]" "''theme''"]
    by (simp add: g)
  have m: "getItem (localStorage (mount [] ?ls)) ''theme'' = Some (JSON_text [])"
    by (simp add: mount_def useMemo_columns_frame getItem_def)
  note th = favorites_persisted [of "[]" ?ls "mount [] ?ls" "''Cafe''" ?es "''theme''"]
  have "getItem (localStorage (run (mount [] ?ls) ?es)) ''theme''
        = getItem (localStorage (mount [] ?ls)) ''theme''"
    by (rule th [THEN conjunct2, THEN conjunct2, THEN conjunct2, THEN mp, OF n])
  then have b: "getItem (localStorage (run (mount [] ?ls) ?es)) ''theme'' = Some (JSON_text [])"
    by (simp only: m)
  have c: "in_sync (run (mount [] ?ls) ?es)"
    by (rule th [THEN conjunct2, THEN conjunct2, THEN conjunct1])
  from n a b c show ?thesis
    by (intro conjI)
qed

text \<open>
  C5. The text search keeps exactly the stores whose lowercased name contains the
  lowercased search string, and every store when the search string is empty: with the
  other filters inactive the callback returns just that, in both versions; and whatever
  the other filters say, a store whose name does not contain a non-empty search string
  is rejected.
\<close>

theorem search_keeps_containing_names:
  "(onlyFavs st \<noteq> ''Favorites'' \<and> openFilter st \<noteq> ''Open Now'' \<longrightarrow>
      filter_callback clk st s
      = Inr (search st = [] \<or> sublist (toLowerCase (search st)) (toLowerCase (name s))))
   \<and> (opn \<noteq> ''Open Now'' \<longrightarrow>
      filter_callback_nofav clk q d opn s
      = Inr (q = [] \<or> sublist (toLowerCase q) (toLowerCase (name s))))
   \<and> (search st \<noteq> [] \<and> \<not> sublist (toLowerCase (search st)) (toLowerCase (name s)) \<longrightarrow>
      filter_callback clk st s = Inr False)
   \<and> (q \<noteq> [] \<and> \<not> sublist (toLowerCase q) (toLowerCase (name s)) \<longrightarrow>
      filter_callback_nofav clk q d opn s = Inr False)"
  by (auto simp: filter_callback_def filter_callback_nofav_def String_includes_sublist)

theorem search_keeps_containing_names_witness:
  "filter_callback \<lparr>localDay = 20003, hour = 12, minute = 30, LocalTZA = fixed_zone 0\<rparr>
     \<lparr>search = ''CAF'', dayFilter = ''Current Day'', openFilter = ''All'', onlyFavs = ''All'',
      favorites = []\<rparr>
     \<lparr>name = ''The Cafe'', hours = []\<rparr> = Inr True
   \<and> sublist (toLowerCase ''CAF'') (toLowerCase ''The Cafe'')
   \<and> filter_callback_nofav \<lparr>localDay = 20003, hour = 12, minute = 30, LocalTZA = fixed_zone 0\<rparr> ''bank''
       ''Current Day'' ''Open Now'' \<lparr>name = ''The Cafe'', hours = []\<rparr> = Inr False
   \<and> \<not> sublist (toLowerCase ''bank'') (toLowerCase ''The Cafe'')"
proof -
  let ?clk = "\<lparr>localDay = 20003, hour = 12, minute = 30, LocalTZA = fixed_zone 0\<rparr>"
  let ?st = "\<lparr>search = ''CAF'', dayFilter = ''Current Day'', openFilter = ''All'',
              onlyFavs = ''All'', favorites = []\<rparr>"
  let ?s = "\<lparr>name = ''The Cafe'', hours = []\<rparr>"
  have a: "sublist (toLowerCase ''CAF'') (toLowerCase ''The Cafe'')"
    by code_simp
  have b: "\<not> sublist (toLowerCase ''bank'') (toLowerCase ''The Cafe'')"
    by code_simp
  have "filter_callback ?clk ?st ?s = Inr True"
    using search_keeps_containing_names [of ?st ?clk ?s "''All''" "''bank''" "''Current Day''"] a
    by simp
  moreover have "filter_callback_nofav ?clk ''bank'' ''Current Day'' ''Open Now'' ?s = Inr False"
    using search_keeps_containing_names
      [of ?st ?clk ?s "''Open Now''" "''bank''" "''Current Day''"] b
    by simp
  ultimately show ?thesis
    using a b by blast
qed

text \<open>
  C6 fails on the code, in the version with favorites. The columns are memoized on
  \<^verbatim>\<open>[favorites]\<close> alone, so after the user selects another day the comparator still reads the
  day of the render that built it. Here the component is mounted on a Tuesday, the user
  selects Monday, and the table compares two rows: on Monday the first closes earlier
  (1700 against 1800), yet the comparator returns a positive number, the difference of
  the Tuesday closing times (2000 against 1900). The version without favorites builds
  its columns in every render and returns the negative difference.
\<close>

theorem stale_sortingFn_after_day_change:
  "dayFilter (cells (run (mount
           [\<lparr>name = ''Bank'', hours = [(''Monday'', \<lparr>open = ''0900'', close = ''1700''\<rparr>),
                                     (''Tuesday'', \<lparr>open = ''0900'', close = ''2000''\<rparr>)]\<rparr>,
            \<lparr>name = ''Cafe'', hours = [(''Monday'', \<lparr>open = ''0900'', close = ''1800''\<rparr>),
                                     (''Tuesday'', \<lparr>open = ''0900'', close = ''1900''\<rparr>)]\<rparr>]
           Map.empty) [setDayFilter ''Monday''])) = ''Monday''
   \<and> getCurrentDay \<lparr>localDay = 20004, hour = 12, minute = 30, LocalTZA = fixed_zone 0\<rparr> = ''Tuesday''
   \<and> closingOf \<lparr>localDay = 20004, hour = 12, minute = 30, LocalTZA = fixed_zone 0\<rparr> ''Monday''
        \<lparr>name = ''Bank'', hours = [(''Monday'', \<lparr>open = ''0900'', close = ''1700''\<rparr>),
                                  (''Tuesday'', \<lparr>open = ''0900'', close = ''2000''\<rparr>)],
         favorite = False\<rparr>
      = Inr (Some 1728406800000)
   \<and> closingOf \<lparr>localDay = 20004, hour = 12, minute = 30, LocalTZA = fixed_zone 0\<rparr> ''Monday''
        \<lparr>name = ''Cafe'', hours = [(''Monday'', \<lparr>open = ''0900'', close = ''1800''\<rparr>),
                                  (''Tuesday'', \<lparr>open = ''0900'', close = ''1900''\<rparr>)],
         favorite = False\<rparr>
      = Inr (Some 1728410400000)
   \<and> columns_sortingFn \<lparr>localDay = 20004, hour = 12, minute = 30, LocalTZA = fixed_zone 0\<rparr>
        (run (mount
           [\<lparr>name = ''Bank'', hours = [(''Monday'', \<lparr>open = ''0900'', close = ''1700''\<rparr>),
                                     (''Tuesday'', \<lparr>open = ''0900'', close = ''2000''\<rparr>)]\<rparr>,
            \<lparr>name = ''Cafe'', hours = [(''Monday'', \<lparr>open = ''0900'', close = ''1800''\<rparr>),
                                     (''Tuesday'', \<lparr>open = ''0900'', close = ''1900''\<rparr>)]\<rparr>]
           Map.empty) [setDayFilter ''Monday''])
        \<lparr>name = ''Bank'', hours = [(''Monday'', \<lparr>open = ''0900'', close = ''1700''\<rparr>),
                                  (''Tuesday'', \<lparr>open = ''0900'', close = ''2000''\<rparr>)],
         favorite = False\<rparr>
        \<lparr>name = ''Cafe'', hours = [(''Monday'', \<lparr>open = ''0900'', close = ''1800''\<rparr>),
                                  (''Tuesday'', \<lparr>open = ''0900'', close = ''1900''\<rparr>)],
         favorite = False\<rparr>
      = Inr (Some 3600000)
   \<and> columns_sortingFn_nofav \<lparr>localDay = 20004, hour = 12, minute = 30, LocalTZA = fixed_zone 0\<rparr> ''Monday''
        \<lparr>name = ''Bank'', hours = [(''Monday'', \<lparr>open = ''0900'', close = ''1700''\<rparr>),
                                  (''Tuesday'', \<lparr>open = ''0900'', close = ''2000''\<rparr>)]\<rparr>
        \<lparr>name = ''Cafe'', hours = [(''Monday'', \<lparr>open = ''0900'', close = ''1800''\<rparr>),
                                  (''Tuesday'', \<lparr>open = ''0900'', close = ''1900''\<rparr>)]\<rparr>
      = Inr (Some (- 3600000))"
  by code_simp

text \<open>
  C7. The fetch handler is cache-first: it responds with the cached response when the
  caches hold a match for the request, and otherwise with the outcome of fetching the
  request from the network.
\<close>

theorem fetch_cache_first:
  "(\<forall>response. caches_match request = Some response \<longrightarrow>
      fetch_listener caches_match fetch request = Inr response)
   \<and> (caches_match request = None \<longrightarrow>
      fetch_listener caches_match fetch request = fetch request)"
  by (simp add: fetch_listener_def)

theorem fetch_cache_first_witness:
  "[''/index.html'' \<mapsto> ''cached page''] ''/index.html'' = Some ''cached page''
   \<and> fetch_listener [''/index.html'' \<mapsto> ''cached page''] (\<lambda>r. Inr ''network page'')
       ''/index.html'' = (Inr ''cached page'' :: error + string)
   \<and> [''/index.html'' \<mapsto> ''cached page''] ''/api'' = None
   \<and> fetch_listener [''/index.html'' \<mapsto> ''cached page''] (\<lambda>r. Inl TypeError)
       ''/api'' = (Inl TypeError :: error + string)"
proof -
  let ?c = "[''/index.html'' \<mapsto> ''cached page'']"
  have h: "?c ''/index.html'' = Some ''cached page''"
    by simp
  have m: "?c ''/api'' = None"
    by simp
  have a: "fetch_listener ?c (\<lambda>r. Inr ''network page'') ''/index.html''
           = (Inr ''cached page'' :: error + string)"
    using fetch_cache_first [of ?c "''/index.html''" "\<lambda>r. Inr ''network page'' :: error + string"] h
    by blast
  have b: "fetch_listener ?c (\<lambda>r. Inl TypeError) ''/api'' = (Inl TypeError :: error + string)"
    using fetch_cache_first [of ?c "''/api''" "\<lambda>r. Inl TypeError :: error + string"] m
    by blast
  from h a m b show ?thesis
    by (intro conjI)
qed

text \<open>
  C8. Recomputing the filtered list leaves the world, and with it \<open>storeData\<close>, as it
  was; and the list, when one is produced, is an order-preserving sublist of
  \<open>storeData\<close>, each kept store decorated with its favorite flag.
\<close>

theorem recompute_frame:
  "snd (recompute clk w) = w
   \<and> storeData (snd (recompute clk w)) = storeData w
   \<and> (\<forall>rows. fst (recompute clk w) = Inr rows \<longrightarrow>
        (\<exists>kept. subseq kept (storeData w)
           \<and> rows = map (decorate (favorites (cells w))) kept
           \<and> map store.truncate rows = kept))"
proof -
  have a: "snd (recompute clk w) = w"
    and b: "fst (recompute clk w) = filteredData clk (cells w) (storeData w)"
    by (simp_all add: recompute_def)
  have c: "\<exists>kept. subseq kept (storeData w)
           \<and> rows = map (decorate (favorites (cells w))) kept
           \<and> map store.truncate rows = kept"
    if "filteredData clk (cells w) (storeData w) = Inr rows" for rows
  proof -
    let ?kept = "filter (\<lambda>s. filter_callback clk (cells w) s = Inr True) (storeData w)"
    have r: "rows = map (decorate (favorites (cells w))) ?kept"
      by (rule filteredData_Inr [OF that])
    have "map store.truncate (map (decorate (favorites (cells w))) ?kept) = ?kept"
      by (rule truncate_decorate_map)
    then have t: "map store.truncate rows = ?kept"
      by (simp only: r [symmetric])
    have "subseq ?kept (storeData w)"
      by (rule subseq_filter_left)
    with r t show ?thesis
      by (intro exI conjI)
  qed
  show ?thesis
    unfolding a b using c by blast
qed

theorem recompute_frame_witness:
  "fst (recompute \<lparr>localDay = 20003, hour = 12, minute = 30, LocalTZA = fixed_zone 0\<rparr>
     \<lparr>storeData =
        [\<lparr>name = ''Bank'', hours = [(''Monday'', \<lparr>open = ''0900'', close = ''1200''\<rparr>)]\<rparr>,
         \<lparr>name = ''Cafe'', hours = [(''Monday'', \<lparr>open = ''0900'', close = ''1700''\<rparr>)]\<rparr>],
      localStorage = Map.empty,
      cells = \<lparr>search = [], dayFilter = ''Monday'', openFilter = ''Open Now'',
               onlyFavs = ''All'', favorites = [(''Cafe'', True)]\<rparr>,
      columns_memo = None\<rparr>)
   = Inr [\<lparr>name = ''Cafe'', hours = [(''Monday'', \<lparr>open = ''0900'', close = ''1700''\<rparr>)],
           favorite = True\<rparr>]
   \<and> (\<exists>kept. subseq kept
         [\<lparr>name = ''Bank'', hours = [(''Monday'', \<lparr>open = ''0900'', close = ''1200''\<rparr>)]\<rparr>,
          \<lparr>name = ''Cafe'', hours = [(''Monday'', \<lparr>open = ''0900'', close = ''1700''\<rparr>)]\<rparr>]
       \<and> [\<lparr>name = ''Cafe'', hours = [(''Monday'', \<lparr>open = ''0900'', close = ''1700''\<rparr>)],
            favorite = True\<rparr>]
         = map (decorate [(''Cafe'', True)]) kept)"
proof -
  let ?clk = "\<lparr>localDay = 20003, hour = 12, minute = 30, LocalTZA = fixed_zone 0\<rparr>"
  let ?stores =
    "[\<lparr>name = ''Bank'', hours = [(''Monday'', \<lparr>open = ''0900'', close = ''1200''\<rparr>)]\<rparr>,
      \<lparr>name = ''Cafe'', hours = [(''Monday'', \<lparr>open = ''0900'', close = ''1700''\<rparr>)]\<rparr>]"
  let ?st = "\<lparr>search = [], dayFilter = ''Monday'', openFilter = ''Open Now'',
              onlyFavs = ''All'', favorites = [(''Cafe'', True)]\<rparr>"
  let ?w = "\<lparr>storeData = ?stores, localStorage = Map.empty, cells = ?st, columns_memo = None\<rparr>"
  let ?rows = "[\<lparr>name = ''Cafe'', hours = [(''Monday'', \<lparr>open = ''0900'', close = ''1700''\<rparr>)],
                 favorite = True\<rparr>]"
  have f: "filteredData ?clk ?st ?stores = Inr ?rows"
    by code_simp
  have r: "fst (recompute ?clk ?w) = Inr ?rows"
    unfolding recompute_def fst_conv world.simps by (rule f)
  have sel: "storeData ?w = ?stores" "favorites (cells ?w) = [(''Cafe'', True)]"
    by simp_all
  have "\<exists>kept. subseq kept (storeData ?w)
          \<and> ?rows = map (decorate (favorites (cells ?w))) kept
          \<and> map store.truncate ?rows = kept"
    by (rule recompute_frame [of ?clk ?w, THEN conjunct2, THEN conjunct2, THEN spec, THEN mp,
          OF r])
  then have "\<exists>kept. subseq kept ?stores \<and> ?rows = map (decorate [(''Cafe'', True)]) kept"
    unfolding sel by (elim exE conjE, intro exI conjI)
  with r show ?thesis
    by (rule conjI)
qed

text \<open>
  C9 fails on the code. Under the "Open Now" filter a store without an hours entry for
  the selected day, once it has passed the favorites and search checks, makes the whole
  filter throw a TypeError (\<^verbatim>\<open>time.substring\<close> on \<^verbatim>\<open>undefined\<close>); the store is not
  quietly excluded. Here the fixture is one store with Monday hours only, the component
  is mounted on a Sunday and the user selects "Open Now"; the second conjunct is the
  version without favorites in the same situation.
\<close>

theorem missing_entry_raises:
  "getCurrentDay \<lparr>localDay = 20002, hour = 12, minute = 30, LocalTZA = fixed_zone 0\<rparr> = ''Sunday''
   \<and> fst (recompute \<lparr>localDay = 20002, hour = 12, minute = 30, LocalTZA = fixed_zone 0\<rparr>
        (run (mount
                [\<lparr>name = ''Bank'',
                  hours = [(''Monday'', \<lparr>open = ''0900'', close = ''1200''\<rparr>)]\<rparr>]
                Map.empty)
           [setOpenFilter ''Open Now'']))
     = Inl TypeError
   \<and> filteredData_nofav \<lparr>localDay = 20002, hour = 12, minute = 30, LocalTZA = fixed_zone 0\<rparr> [] ''Current Day''
       ''Open Now''
       [\<lparr>name = ''Bank'', hours = [(''Monday'', \<lparr>open = ''0900'', close = ''1200''\<rparr>)]\<rparr>]
     = Inl TypeError"
  by code_simp

text \<open>
  C10, as the code has it. Clicking a store's favorites cell twice restores its displayed
  favorite flag, and one click leaves the displayed flag of every store of another name
  as it was.
\<close>

theorem toggle_involution:
  "favorite (decorate (favorites (cells
       (step (step w (onClick ''favorites'' (name s))) (onClick ''favorites'' (name s))))) s)
   = favorite (decorate (favorites (cells w)) s)
   \<and> (name s' \<noteq> name s \<longrightarrow>
        favorite (decorate (favorites (cells (step w (onClick ''favorites'' (name s))))) s')
        = favorite (decorate (favorites (cells w)) s'))"
  by (simp add: decorate_def toggle_lookup truthy_def)

theorem toggle_involution_witness:
  "name \<lparr>name = ''Bank'', hours = []\<rparr> \<noteq> name \<lparr>name = ''Cafe'', hours = []\<rparr>
   \<and> favorite (decorate (favorites (cells
        (step (mount [\<lparr>name = ''Cafe'', hours = []\<rparr>, \<lparr>name = ''Bank'', hours = []\<rparr>] Map.empty) (onClick ''favorites'' ''Cafe''))))
        \<lparr>name = ''Cafe'', hours = []\<rparr>)
   \<and> \<not> favorite (decorate (favorites (cells
        (step (step (mount [\<lparr>name = ''Cafe'', hours = []\<rparr>, \<lparr>name = ''Bank'', hours = []\<rparr>] Map.empty) (onClick ''favorites'' ''Cafe''))
           (onClick ''favorites'' ''Cafe''))))
        \<lparr>name = ''Cafe'', hours = []\<rparr>)
   \<and> \<not> favorite (decorate (favorites (cells (mount [\<lparr>name = ''Cafe'', hours = []\<rparr>, \<lparr>name = ''Bank'', hours = []\<rparr>] Map.empty)))
        \<lparr>name = ''Cafe'', hours = []\<rparr>)
   \<and> \<not> favorite (decorate (favorites (cells
        (step (mount [\<lparr>name = ''Cafe'', hours = []\<rparr>, \<lparr>name = ''Bank'', hours = []\<rparr>] Map.empty) (onClick ''favorites'' ''Cafe''))))
        \<lparr>name = ''Bank'', hours = []\<rparr>)"
proof -
  let ?cafe = "\<lparr>name = ''Cafe'', hours = []\<rparr>"
  let ?bank = "\<lparr>name = ''Bank'', hours = []\<rparr>"
  let ?w = "mount [\<lparr>name = ''Cafe'', hours = []\<rparr>, \<lparr>name = ''Bank'', hours = []\<rparr>] Map.empty"
  have f: "favorites (cells ?w) = []"
    by (simp add: mount_def useMemo_columns_frame initial_state_def getItem_def
        JSON_stringify_def)
  have n: "name ?bank \<noteq> name ?cafe"
    by simp
  have o: "\<not> favorite (decorate (favorites (cells ?w)) ?cafe)"
    "\<not> favorite (decorate (favorites (cells ?w)) ?bank)"
    by (simp_all add: f decorate_def truthy_def)
  have t: "favorite (decorate (favorites (cells (step ?w (onClick ''favorites'' ''Cafe'')))) ?cafe)"
    by (simp add: toggle_favorites f decorate_def truthy_def)
  from toggle_involution [of ?w ?cafe ?bank] n o
  have "\<not> favorite (decorate (favorites (cells
          (step (step ?w (onClick ''favorites'' ''Cafe'')) (onClick ''favorites'' ''Cafe''))))
          ?cafe)"
    "\<not> favorite (decorate (favorites (cells (step ?w (onClick ''favorites'' ''Cafe'')))) ?bank)"
    by simp_all
  with n o t show ?thesis
    by blast
qed

text \<open>
  C10, as stated, fails for another store of the same name: favorites are kept by store
  name, so a click on one Cafe also turns on the flag of a second Cafe with other hours.
\<close>

theorem toggle_same_name_counterexample:
  "\<lparr>name = ''Cafe'', hours = [(''Monday'', \<lparr>open = ''0800'', close = ''1600''\<rparr>)]\<rparr>
     \<noteq> \<lparr>name = ''Cafe'', hours = [(''Monday'', \<lparr>open = ''1000'', close = ''2200''\<rparr>)]\<rparr>
   \<and> \<not> favorite (decorate (favorites (cells
        (mount [\<lparr>name = ''Cafe'', hours = [(''Monday'', \<lparr>open = ''0800'', close = ''1600''\<rparr>)]\<rparr>,
                \<lparr>name = ''Cafe'', hours = [(''Monday'', \<lparr>open = ''1000'', close = ''2200''\<rparr>)]\<rparr>]
           Map.empty)))
        \<lparr>name = ''Cafe'', hours = [(''Monday'', \<lparr>open = ''1000'', close = ''2200''\<rparr>)]\<rparr>)
   \<and> favorite (decorate (favorites (cells
        (step
           (mount [\<lparr>name = ''Cafe'', hours = [(''Monday'', \<lparr>open = ''0800'', close = ''1600''\<rparr>)]\<rparr>,
                   \<lparr>name = ''Cafe'', hours = [(''Monday'', \<lparr>open = ''1000'', close = ''2200''\<rparr>)]\<rparr>]
              Map.empty)
           (onClick ''favorites''
              (name \<lparr>name = ''Cafe'',
                      hours = [(''Monday'', \<lparr>open = ''0800'', close = ''1600''\<rparr>)]\<rparr>)))))
        \<lparr>name = ''Cafe'', hours = [(''Monday'', \<lparr>open = ''1000'', close = ''2200''\<rparr>)]\<rparr>)"
  by code_simp

end
